theory Spec2Isabelle
  imports Complex_Main "HOL-Library.Sublist"
begin

section \<open>Python values and errors\<close>

text \<open>
  The exceptions the modelled Python code can raise: \<open>messages[-1]\<close> on an empty
  sequence raises IndexError, and a true division by zero raises ZeroDivisionError.
\<close>

datatype py_error = IndexError | ZeroDivisionError

text \<open>
  Python's \<open>needle in haystack\<close> on \<open>str\<close>: the needle occurs as a contiguous
  substring. \<open>startswith s p\<close> is \<open>s.startswith(p)\<close>; \<open>str_contains needle s\<close>
  tries every start position of \<open>s\<close> from left to right. Strings are byte lists
  here; the needles of the code below are ASCII, and an ASCII needle occurs in a
  text exactly when its bytes occur in the UTF-8 bytes of the text.
\<close>

fun startswith :: "string \<Rightarrow> string \<Rightarrow> bool" where
  "startswith s [] = True"
| "startswith [] (p # ps) = False"
| "startswith (c # s) (p # ps) = (c = p \<and> startswith s ps)"

fun str_contains :: "string \<Rightarrow> string \<Rightarrow> bool" where
  "str_contains needle [] = (needle = [])"
| "str_contains needle (c # s) = (startswith (c # s) needle \<or> str_contains needle s)"

text \<open>
  Python's true division \<open>a / b\<close>, in exact rational arithmetic: it raises
  ZeroDivisionError when the divisor is zero.
\<close>

definition py_truediv :: "rat \<Rightarrow> rat \<Rightarrow> py_error + rat" where
  "py_truediv a b = (if b = 0 then Inl ZeroDivisionError else Inr (a / b))"


section \<open>The mock tools of the selector group chat tutorial\<close>

text \<open>
  \<^verbatim>\<open>
  def search_web_tool(query: str) -> str:
      if "2006-2007" in query:
          return """Here are the total points scored by Miami Heat players in the 2006-2007 season:
          Udonis Haslem: 844 points
          Dwayne Wade: 1397 points
          James Posey: 550 points
          ...
          """
      elif "2007-2008" in query:
          return "The number of total rebounds for Dwayne Wade in the Miami Heat season 2007-2008 is 214."
      elif "2008-2009" in query:
          return "The number of total rebounds for Dwayne Wade in the Miami Heat season 2008-2009 is 398."
      return "No data found."
  \<close>
  The first result is a triple-quoted literal: its lines after the first keep the
  eight blanks of indentation, and it ends with a line of eight blanks.
\<close>

definition heat_points_2006_2007 :: string where
  "heat_points_2006_2007 =
     ''Here are the total points scored by Miami Heat players in the 2006-2007 season:\<newline>        Udonis Haslem: 844 points\<newline>        Dwayne Wade: 1397 points\<newline>        James Posey: 550 points\<newline>        ...\<newline>        ''"

definition wade_rebounds_2007_2008 :: string where
  "wade_rebounds_2007_2008 =
     ''The number of total rebounds for Dwayne Wade in the Miami Heat season 2007-2008 is 214.''"

definition wade_rebounds_2008_2009 :: string where
  "wade_rebounds_2008_2009 =
     ''The number of total rebounds for Dwayne Wade in the Miami Heat season 2008-2009 is 398.''"

definition no_data_found :: string where
  "no_data_found = ''No data found.''"

definition search_web_tool :: "string \<Rightarrow> string" where
  "search_web_tool query =
     (if str_contains ''2006-2007'' query then heat_points_2006_2007
      else if str_contains ''2007-2008'' query then wade_rebounds_2007_2008
      else if str_contains ''2008-2009'' query then wade_rebounds_2008_2009
      else no_data_found)"

text \<open>
  \<^verbatim>\<open>
  def percentage_change_tool(start: float, end: float) -> float:
      return ((end - start) / start) * 100
  \<close>
  The arithmetic is taken over the rationals: the rounding of Python's binary
  floating point is not modelled. The division is the only operation that can raise.
\<close>

definition percentage_change_tool :: "rat \<Rightarrow> rat \<Rightarrow> py_error + rat" where
  "percentage_change_tool start end' =
     (case py_truediv (end' - start) start of
        Inl err \<Rightarrow> Inl err
      | Inr q \<Rightarrow> Inr (q * 100))"


section \<open>The agents and the custom selector function of the tutorial\<close>

text \<open>
  An agent is created with a name and a description; nothing else of an agent is
  read by the code below.
  \<^verbatim>\<open>
  planning_agent = AssistantAgent("PlanningAgent", description="An agent for planning tasks, ...", ...)
  web_search_agent = AssistantAgent("WebSearchAgent", description="A web search agent.", ...)
  data_analyst_agent = AssistantAgent("DataAnalystAgent", description="A data analyst agent. ...", ...)
  \<close>
\<close>

record chat_agent =
  name :: string
  description :: string

definition planning_agent :: chat_agent where
  "planning_agent =
     \<lparr>name = ''PlanningAgent'',
      description = ''An agent for planning tasks, this agent should be the first to engage when given a new task.''\<rparr>"

definition web_search_agent :: chat_agent where
  "web_search_agent = \<lparr>name = ''WebSearchAgent'', description = ''A web search agent.''\<rparr>"

definition data_analyst_agent :: chat_agent where
  "data_analyst_agent =
     \<lparr>name = ''DataAnalystAgent'',
      description = ''A data analyst agent. Useful for performing calculations.''\<rparr>"

text \<open>
  A message of the conversation: every kind of message carries the name of its
  source; the content is kept as text.
\<close>

record agent_message =
  source :: string
  content :: string

text \<open>
  \<^verbatim>\<open>
  def selector_func(messages: Sequence[AgentMessage]) -> str | None:
      if messages[-1].source != planning_agent.name:
          return planning_agent.name
      return None
  \<close>
  \<open>messages[-1]\<close> raises IndexError on an empty sequence.
\<close>

definition selector_func :: "agent_message list \<Rightarrow> py_error + string option" where
  "selector_func messages =
     (if messages = [] then Inl IndexError
      else if source (last messages) \<noteq> name planning_agent
        then Inr (Some (name planning_agent))
      else Inr None)"

text \<open>
  The team of the tutorial is built from the three agents, and run on this task.
\<close>

definition team_participants :: "chat_agent list" where
  "team_participants = [planning_agent, web_search_agent, data_analyst_agent]"

definition task :: string where
  "task = ''Who was the Miami Heat player with the highest points in the 2006-2007 season, and what was the percentage change in his total rebounds between the 2007-2008 and 2008-2009 seasons?''"


section \<open>The group-chat team\<close>

text \<open>
  Modelled from the spec: the speaker selection of the group-chat team (class
  SelectorGroupChat, whose code is not among the sources: they only construct and
  run it). The spec describes the team as selecting, among a set of participants,
  the next one to contribute a message; the tutorial adds that a custom selection
  function overrides the model-based selection, and that a result of None from it
  uses the model-based selection. The choice of the model is not determined, so
  \<open>next_speakers\<close> lists every speaker that may come next: the name the custom
  function returns, or else the name of any participant. When the custom function
  raises, nobody is selected. Whether a returned name is checked against the
  participants is not described; no check is modelled.
\<close>

definition next_speakers ::
  "(agent_message list \<Rightarrow> py_error + string option) \<Rightarrow> chat_agent list \<Rightarrow>
     agent_message list \<Rightarrow> string list" where
  "next_speakers selector participants thread =
     (case selector thread of
        Inl err \<Rightarrow> []
      | Inr (Some speaker) \<Rightarrow> [speaker]
      | Inr None \<Rightarrow> map name participants)"

text \<open>
  Modelled from the spec: one run of a newly created team on a task (methods run
  and run_stream of the team, not among the sources). The conversation starts with
  the task as a message from the source "user". Then, as long as the termination
  condition does not hold, the next speaker is selected from the conversation so
  far and contributes a response, which is appended to the conversation. As the
  conversation recorded in the tutorial shows, one response can consist of several
  messages (a tool call, its result, the reply), all carrying the speaker's name as
  their source. What the agents answer is not determined, so the run is a relation:
  \<open>group_chat_run selector participants terminated request thread speakers\<close> holds
  when the run on \<open>request\<close> can reach the conversation \<open>thread\<close> with the speakers
  \<open>speakers\<close> selected so far, in this order.
\<close>

inductive group_chat_run ::
  "(agent_message list \<Rightarrow> py_error + string option) \<Rightarrow> chat_agent list \<Rightarrow>
     (agent_message list \<Rightarrow> bool) \<Rightarrow> string \<Rightarrow> agent_message list \<Rightarrow> string list \<Rightarrow> bool"
  for selector participants terminated request
where
  task_received:
    "group_chat_run selector participants terminated request
       [\<lparr>source = ''user'', content = request\<rparr>] []"
| turn:
    "group_chat_run selector participants terminated request thread speakers \<Longrightarrow>
     \<not> terminated thread \<Longrightarrow>
     speaker \<in> set (next_speakers selector participants thread) \<Longrightarrow>
     response \<noteq> [] \<Longrightarrow>
     list_all (\<lambda>m. source m = speaker) response \<Longrightarrow>
     group_chat_run selector participants terminated request
       (thread @ response) (speakers @ [speaker])"

text \<open>
  Modelled from the spec: the termination condition TextMentionTermination (not
  among the sources), which according to the tutorial ends the conversation when a
  message mentions the given text.
\<close>

definition TextMentionTermination :: "string \<Rightarrow> agent_message list \<Rightarrow> bool" where
  "TextMentionTermination text thread = list_ex (\<lambda>m. str_contains text (content m)) thread"

text \<open>
  Modelled from the spec: the termination condition MaxMessageTermination (not
  among the sources), which according to the tutorial limits the conversation to
  the given number of messages.
\<close>

definition MaxMessageTermination :: "nat \<Rightarrow> agent_message list \<Rightarrow> bool" where
  "MaxMessageTermination max_messages thread = (max_messages \<le> length thread)"

text \<open>
  \<^verbatim>\<open>
  text_mention_termination = TextMentionTermination("TERMINATE")
  max_messages_termination = MaxMessageTermination(max_messages=25)
  termination = text_mention_termination | max_messages_termination
  \<close>
  The combined condition is passed to the team as \<open>termination_condition\<close>.
\<close>

definition text_mention_termination :: "agent_message list \<Rightarrow> bool" where
  "text_mention_termination = TextMentionTermination ''TERMINATE''"

definition max_messages_termination :: "agent_message list \<Rightarrow> bool" where
  "max_messages_termination = MaxMessageTermination 25"

definition termination_condition :: "agent_message list \<Rightarrow> bool" where
  "termination_condition thread =
     (text_mention_termination thread \<or> max_messages_termination thread)"

text \<open>
  Two relations between the source of a message (or the speaker of a turn) and the
  source of the next: the planning agent's name is one of the two; or the planning
  agent's name is one of the two or the source stays the same.
\<close>

definition planning_follows :: "string \<Rightarrow> string \<Rightarrow> bool" where
  "planning_follows a b = (a = name planning_agent \<or> b = name planning_agent)"

definition same_or_planning_follows :: "string \<Rightarrow> string \<Rightarrow> bool" where
  "same_or_planning_follows a b =
     (a = name planning_agent \<or> b = a \<or> b = name planning_agent)"

text \<open>
  The conversation that the tutorial records for the team with \<open>selector_func\<close>:
  the sources of its eight messages, in order, with the contents shortened, and the
  speakers of its five turns.
\<close>

definition recorded_thread :: "agent_message list" where
  "recorded_thread =
     [\<lparr>source = ''user'', content = task\<rparr>,
      \<lparr>source = ''PlanningAgent'', content = ''To solve this inquiry, ...''\<rparr>,
      \<lparr>source = ''WebSearchAgent'', content = ''The Miami Heat player with the highest points ...''\<rparr>,
      \<lparr>source = ''PlanningAgent'', content = ''The Miami Heat player with the highest points ...''\<rparr>,
      \<lparr>source = ''DataAnalystAgent'', content = ''[FunctionCall(..., name=percentage_change_tool)]''\<rparr>,
      \<lparr>source = ''DataAnalystAgent'', content = ''[FunctionExecutionResult(content=85.98130841121495, ...)]''\<rparr>,
      \<lparr>source = ''DataAnalystAgent'', content = ''The Miami Heat player with the highest points ...''\<rparr>,
      \<lparr>source = ''PlanningAgent'', content = ''The Miami Heat player with the highest points ... TERMINATE''\<rparr>]"

definition recorded_speakers :: "string list" where
  "recorded_speakers =
     [''PlanningAgent'', ''WebSearchAgent'', ''PlanningAgent'', ''DataAnalystAgent'',
      ''PlanningAgent'']"


section \<open>Substring search\<close>

lemma startswith_iff_prefix: "startswith s p \<longleftrightarrow> prefix p s"
  by (induction s p rule: startswith.induct) auto

lemma str_contains_iff_sublist: "str_contains needle s \<longleftrightarrow> sublist needle s"
proof (induction s)
  case Nil
  show ?case by auto
next
  case (Cons c s)
  show ?case
    by (simp only: str_contains.simps startswith_iff_prefix Cons.IH sublist_Cons_right)
qed

lemma str_contains_iff_decomposition:
  "str_contains needle s \<longleftrightarrow> (\<exists>before after. s = before @ needle @ after)"
  by (simp add: str_contains_iff_sublist sublist_def)


section \<open>Properties of the mock tools\<close>

lemma search_results_distinct:
  "distinct [heat_points_2006_2007, wade_rebounds_2007_2008, wade_rebounds_2008_2009, no_data_found]"
  by (simp add: heat_points_2006_2007_def wade_rebounds_2007_2008_def
      wade_rebounds_2008_2009_def no_data_found_def)

lemma search_results_card:
  "card {heat_points_2006_2007, wade_rebounds_2007_2008, wade_rebounds_2008_2009,
      no_data_found} = 4"
  using distinct_card [OF search_results_distinct] by simp

lemma search_web_tool_first_match:
  "search_web_tool query =
     (if sublist ''2006-2007'' query then heat_points_2006_2007
      else if sublist ''2007-2008'' query then wade_rebounds_2007_2008
      else if sublist ''2008-2009'' query then wade_rebounds_2008_2009
      else no_data_found)"
  by (simp add: search_web_tool_def str_contains_iff_sublist)

text \<open>
  C9: \<open>search_web_tool\<close> is a function on strings whose result is always one of
  four fixed, pairwise different texts, spelled out below, chosen by the first test
  that succeeds: a query containing "2006-2007" gets the Miami Heat points listing,
  whatever else it contains; otherwise a query containing "2007-2008" gets the
  sentence with 214 rebounds; otherwise a query containing "2008-2009" gets the
  sentence with 398 rebounds; otherwise the result is "No data found.".
  Containment is Python's substring test.
\<close>

theorem search_web_tool_branches:
  "search_web_tool query \<in>
     {''Here are the total points scored by Miami Heat players in the 2006-2007 season:\<newline>        Udonis Haslem: 844 points\<newline>        Dwayne Wade: 1397 points\<newline>        James Posey: 550 points\<newline>        ...\<newline>        '',
      ''The number of total rebounds for Dwayne Wade in the Miami Heat season 2007-2008 is 214.'',
      ''The number of total rebounds for Dwayne Wade in the Miami Heat season 2008-2009 is 398.'',
      ''No data found.''}
   \<and> card
       {''Here are the total points scored by Miami Heat players in the 2006-2007 season:\<newline>        Udonis Haslem: 844 points\<newline>        Dwayne Wade: 1397 points\<newline>        James Posey: 550 points\<newline>        ...\<newline>        '',
        ''The number of total rebounds for Dwayne Wade in the Miami Heat season 2007-2008 is 214.'',
        ''The number of total rebounds for Dwayne Wade in the Miami Heat season 2008-2009 is 398.'',
        ''No data found.''} = 4
   \<and> (sublist ''2006-2007'' query \<longrightarrow>
        search_web_tool query =
          ''Here are the total points scored by Miami Heat players in the 2006-2007 season:\<newline>        Udonis Haslem: 844 points\<newline>        Dwayne Wade: 1397 points\<newline>        James Posey: 550 points\<newline>        ...\<newline>        '')
   \<and> (\<not> sublist ''2006-2007'' query \<and> sublist ''2007-2008'' query \<longrightarrow>
        search_web_tool query =
          ''The number of total rebounds for Dwayne Wade in the Miami Heat season 2007-2008 is 214.'')
   \<and> (\<not> sublist ''2006-2007'' query \<and> \<not> sublist ''2007-2008'' query
        \<and> sublist ''2008-2009'' query \<longrightarrow>
        search_web_tool query =
          ''The number of total rebounds for Dwayne Wade in the Miami Heat season 2008-2009 is 398.'')
   \<and> (\<not> sublist ''2006-2007'' query \<and> \<not> sublist ''2007-2008'' query
        \<and> \<not> sublist ''2008-2009'' query \<longrightarrow>
        search_web_tool query = ''No data found.'')"
  unfolding heat_points_2006_2007_def [symmetric] wade_rebounds_2007_2008_def [symmetric]
    wade_rebounds_2008_2009_def [symmetric] no_data_found_def [symmetric]
  using search_results_card by (simp add: search_web_tool_first_match)

theorem search_web_tool_branches_witness:
  "sublist ''2006-2007'' ''rebounds 2008-2009, 2007-2008 and points 2006-2007''
   \<and> search_web_tool ''rebounds 2008-2009, 2007-2008 and points 2006-2007'' =
       ''Here are the total points scored by Miami Heat players in the 2006-2007 season:\<newline>        Udonis Haslem: 844 points\<newline>        Dwayne Wade: 1397 points\<newline>        James Posey: 550 points\<newline>        ...\<newline>        ''
   \<and> \<not> sublist ''2006-2007'' ''Dwyane Wade total rebounds 2007-2008 season''
   \<and> sublist ''2007-2008'' ''Dwyane Wade total rebounds 2007-2008 season''
   \<and> search_web_tool ''Dwyane Wade total rebounds 2007-2008 season'' =
       ''The number of total rebounds for Dwayne Wade in the Miami Heat season 2007-2008 is 214.''
   \<and> \<not> sublist ''2006-2007'' ''Dwyane Wade total rebounds 2008-2009 season''
   \<and> \<not> sublist ''2007-2008'' ''Dwyane Wade total rebounds 2008-2009 season''
   \<and> sublist ''2008-2009'' ''Dwyane Wade total rebounds 2008-2009 season''
   \<and> search_web_tool ''Dwyane Wade total rebounds 2008-2009 season'' =
       ''The number of total rebounds for Dwayne Wade in the Miami Heat season 2008-2009 is 398.''
   \<and> \<not> sublist ''2006-2007'' ''2006-2008''
   \<and> \<not> sublist ''2007-2008'' ''2006-2008''
   \<and> \<not> sublist ''2008-2009'' ''2006-2008''
   \<and> search_web_tool ''2006-2008'' = ''No data found.''"
proof -
  have a: "sublist ''2006-2007'' ''rebounds 2008-2009, 2007-2008 and points 2006-2007''"
    by code_simp
  have b: "\<not> sublist ''2006-2007'' ''Dwyane Wade total rebounds 2007-2008 season''
      \<and> sublist ''2007-2008'' ''Dwyane Wade total rebounds 2007-2008 season''"
    by code_simp
  have c: "\<not> sublist ''2006-2007'' ''Dwyane Wade total rebounds 2008-2009 season''
      \<and> \<not> sublist ''2007-2008'' ''Dwyane Wade total rebounds 2008-2009 season''
      \<and> sublist ''2008-2009'' ''Dwyane Wade total rebounds 2008-2009 season''"
    by code_simp
  have d: "\<not> sublist ''2006-2007'' ''2006-2008'' \<and> \<not> sublist ''2007-2008'' ''2006-2008''
      \<and> \<not> sublist ''2008-2009'' ''2006-2008''"
    by code_simp
  note ra = search_web_tool_branches
      [THEN conjunct2, THEN conjunct2, THEN conjunct1, THEN mp, OF a]
  note rb = search_web_tool_branches
      [THEN conjunct2, THEN conjunct2, THEN conjunct2, THEN conjunct1, THEN mp, OF b]
  note rc = search_web_tool_branches
      [THEN conjunct2, THEN conjunct2, THEN conjunct2, THEN conjunct2, THEN conjunct1,
        THEN mp, OF c]
  note rd = search_web_tool_branches
      [THEN conjunct2, THEN conjunct2, THEN conjunct2, THEN conjunct2, THEN conjunct2,
        THEN mp, OF d]
  show ?thesis
    by (intro conjI a ra rb rc rd b [THEN conjunct1] b [THEN conjunct2]
        c [THEN conjunct1] c [THEN conjunct2, THEN conjunct1] c [THEN conjunct2, THEN conjunct2]
        d [THEN conjunct1] d [THEN conjunct2, THEN conjunct1] d [THEN conjunct2, THEN conjunct2])
qed

text \<open>
  C10: \<open>percentage_change_tool(start, end)\<close> computes
  \<open>((end - start) / start) * 100\<close>; in exact rational arithmetic the result for
  start 214 and end 398 is 9200/107, which lies within 0.005 of 85.98; and the
  call fails, with a division by zero, exactly when start is 0.
\<close>

theorem percentage_change_tool_value:
  "(start \<noteq> 0 \<longrightarrow>
      percentage_change_tool start end' = Inr (((end' - start) / start) * 100))
   \<and> percentage_change_tool 214 398 = Inr (9200 / 107)
   \<and> \<bar>(9200 / 107 :: rat) - 8598 / 100\<bar> < 5 / 1000
   \<and> ((\<exists>err. percentage_change_tool start end' = Inl err) \<longleftrightarrow> start = 0)
   \<and> (percentage_change_tool start end' = Inl ZeroDivisionError \<longleftrightarrow> start = 0)"
  by (simp add: percentage_change_tool_def py_truediv_def)

theorem percentage_change_tool_value_witness:
  "(214 :: rat) \<noteq> 0
   \<and> percentage_change_tool 214 398 = Inr (((398 - 214) / 214) * 100)
   \<and> (\<exists>err. percentage_change_tool 0 398 = Inl err)
   \<and> percentage_change_tool 0 398 = Inl ZeroDivisionError"
  using percentage_change_tool_value [of 214 398] percentage_change_tool_value [of 0 398]
  by simp


section \<open>Runs of the team with the custom selector function\<close>

lemma selector_func_cases:
  "messages \<noteq> [] \<Longrightarrow> selector_func messages =
     (if source (last messages) = ''PlanningAgent'' then Inr None else Inr (Some ''PlanningAgent''))"
  by (simp add: selector_func_def planning_agent_def)

lemma one_turn_sources:
  "list_all (\<lambda>m. source m = speaker) response \<Longrightarrow>
   successively same_or_planning_follows (map source response)"
  by (induction response rule: induct_list012)
     (auto simp: same_or_planning_follows_def)

lemma run_invariant:
  assumes "group_chat_run selector_func participants terminated request thread speakers"
  shows "thread \<noteq> [] \<and> source (last thread) = last (''user'' # speakers)
       \<and> successively planning_follows (''user'' # speakers)
       \<and> successively same_or_planning_follows (map source thread)"
  using assms
proof (induction rule: group_chat_run.induct)
  case task_received
  show ?case by simp
next
  case (turn thread speakers speaker response)
  from turn.IH have ne: "thread \<noteq> []"
    and lst: "source (last thread) = last (''user'' # speakers)"
    and sp: "successively planning_follows (''user'' # speakers)"
    and th: "successively same_or_planning_follows (map source thread)"
    by blast+
  from turn.hyps(3) ne
  have sel: "source (last thread) = name planning_agent \<or> speaker = name planning_agent"
    by (auto simp: next_speakers_def selector_func_cases planning_agent_def
        split: if_splits)
  from turn.hyps(4,5) have last_resp: "source (last response) = speaker"
    by (simp add: list_all_iff)
  from turn.hyps(4,5) have hd_resp: "source (hd response) = speaker"
    by (simp add: list_all_iff)
  have a: "thread @ response \<noteq> []" using ne by simp
  have b: "source (last (thread @ response)) = last (''user'' # speakers @ [speaker])"
    using turn.hyps(4) last_resp by simp
  have c: "successively planning_follows ((''user'' # speakers) @ [speaker])"
    unfolding successively_append_iff using sp sel lst
    by (auto simp: planning_follows_def)
  have d: "successively same_or_planning_follows (map source thread @ map source response)"
    unfolding successively_append_iff
    using th one_turn_sources [OF turn.hyps(5)] sel ne turn.hyps(4) hd_resp
    by (auto simp: same_or_planning_follows_def last_map hd_map)
  show ?case using a b c d by simp
qed

lemma recorded_run:
  "group_chat_run selector_func team_participants termination_condition task
     recorded_thread recorded_speakers"
proof -
  let ?m1 = "\<lparr>source = ''PlanningAgent'', content = ''To solve this inquiry, ...''\<rparr>"
  let ?m2 = "\<lparr>source = ''WebSearchAgent'', content = ''The Miami Heat player with the highest points ...''\<rparr>"
  let ?m3 = "\<lparr>source = ''PlanningAgent'', content = ''The Miami Heat player with the highest points ...''\<rparr>"
  let ?m4 = "\<lparr>source = ''DataAnalystAgent'', content = ''[FunctionCall(..., name=percentage_change_tool)]''\<rparr>"
  let ?m5 = "\<lparr>source = ''DataAnalystAgent'', content = ''[FunctionExecutionResult(content=85.98130841121495, ...)]''\<rparr>"
  let ?m6 = "\<lparr>source = ''DataAnalystAgent'', content = ''The Miami Heat player with the highest points ...''\<rparr>"
  let ?m7 = "\<lparr>source = ''PlanningAgent'', content = ''The Miami Heat player with the highest points ... TERMINATE''\<rparr>"
  let ?run = "group_chat_run selector_func team_participants termination_condition task"
  let ?t0 = "[\<lparr>source = ''user'', content = task\<rparr>]"
  have s0: "?run ?t0 []"
    by (rule group_chat_run.task_received)
  have s1: "?run (?t0 @ [?m1]) ([] @ [''PlanningAgent''])"
  proof (rule group_chat_run.turn [OF s0])
    show "\<not> termination_condition ?t0" by code_simp
    show "''PlanningAgent'' \<in> set (next_speakers selector_func team_participants ?t0)"
      by code_simp
  qed simp_all
  have s2: "?run ((?t0 @ [?m1]) @ [?m2]) (([] @ [''PlanningAgent'']) @ [''WebSearchAgent''])"
  proof (rule group_chat_run.turn [OF s1])
    show "\<not> termination_condition (?t0 @ [?m1])" by code_simp
    show "''WebSearchAgent'' \<in> set (next_speakers selector_func team_participants (?t0 @ [?m1]))"
      by code_simp
  qed simp_all
  have s3: "?run (((?t0 @ [?m1]) @ [?m2]) @ [?m3])
      ((([] @ [''PlanningAgent'']) @ [''WebSearchAgent'']) @ [''PlanningAgent''])"
  proof (rule group_chat_run.turn [OF s2])
    show "\<not> termination_condition ((?t0 @ [?m1]) @ [?m2])" by code_simp
    show "''PlanningAgent''
        \<in> set (next_speakers selector_func team_participants ((?t0 @ [?m1]) @ [?m2]))"
      by code_simp
  qed simp_all
  have s4: "?run ((((?t0 @ [?m1]) @ [?m2]) @ [?m3]) @ [?m4, ?m5, ?m6])
      (((([] @ [''PlanningAgent'']) @ [''WebSearchAgent'']) @ [''PlanningAgent''])
        @ [''DataAnalystAgent''])"
  proof (rule group_chat_run.turn [OF s3])
    show "\<not> termination_condition (((?t0 @ [?m1]) @ [?m2]) @ [?m3])" by code_simp
    show "''DataAnalystAgent''
        \<in> set (next_speakers selector_func team_participants (((?t0 @ [?m1]) @ [?m2]) @ [?m3]))"
      by code_simp
  qed simp_all
  have s5: "?run (((((?t0 @ [?m1]) @ [?m2]) @ [?m3]) @ [?m4, ?m5, ?m6]) @ [?m7])
      ((((([] @ [''PlanningAgent'']) @ [''WebSearchAgent'']) @ [''PlanningAgent''])
        @ [''DataAnalystAgent'']) @ [''PlanningAgent''])"
  proof (rule group_chat_run.turn [OF s4])
    show "\<not> termination_condition ((((?t0 @ [?m1]) @ [?m2]) @ [?m3]) @ [?m4, ?m5, ?m6])"
      by code_simp
    show "''PlanningAgent''
        \<in> set (next_speakers selector_func team_participants
            ((((?t0 @ [?m1]) @ [?m2]) @ [?m3]) @ [?m4, ?m5, ?m6]))"
      by code_simp
  qed simp_all
  show ?thesis
    using s5 by (simp add: recorded_thread_def recorded_speakers_def)
qed

lemma recorded_run_ends: "termination_condition recorded_thread"
  by code_simp

text \<open>
  C8: in every run of a team configured with \<open>selector_func\<close>, the
  planning agent is the speaker selected right after the task message and right
  after every turn of another speaker, so no two consecutive turns are taken by
  speakers other than the planning agent; a message from a source other than the
  planning agent is followed, if by anything, by a message of the same source (the
  same turn) or by a message of the planning agent; and when \<open>selector_func\<close>
  returns None, which it does exactly after a message of the planning agent, the
  next speaker is left to the default selection among the participants.
\<close>

theorem planning_agent_selected_after_other_speakers:
  assumes "group_chat_run selector_func participants terminated request thread speakers"
  shows "successively planning_follows (''user'' # speakers)
       \<and> successively same_or_planning_follows (map source thread)
       \<and> selector_func thread =
           (if source (last thread) = name planning_agent then Inr None
            else Inr (Some (name planning_agent)))
       \<and> next_speakers selector_func participants thread =
           (if source (last thread) = name planning_agent then map name participants
            else [name planning_agent])"
proof -
  from run_invariant [OF assms] have ne: "thread \<noteq> []"
    and sp: "successively planning_follows (''user'' # speakers)"
    and th: "successively same_or_planning_follows (map source thread)"
    by blast+
  have sel: "selector_func thread =
      (if source (last thread) = name planning_agent then Inr None
       else Inr (Some (name planning_agent)))"
    using ne by (simp add: selector_func_def)
  have nxt: "next_speakers selector_func participants thread =
      (if source (last thread) = name planning_agent then map name participants
       else [name planning_agent])"
    by (simp add: next_speakers_def sel)
  show ?thesis using sp th sel nxt by (intro conjI)
qed

theorem planning_agent_selected_after_other_speakers_witness:
  "group_chat_run selector_func team_participants termination_condition task
     recorded_thread recorded_speakers
   \<and> successively planning_follows (''user'' # recorded_speakers)
   \<and> successively same_or_planning_follows (map source recorded_thread)
   \<and> selector_func recorded_thread = Inr None
   \<and> next_speakers selector_func team_participants recorded_thread
       = [''PlanningAgent'', ''WebSearchAgent'', ''DataAnalystAgent'']"
proof -
  note r = planning_agent_selected_after_other_speakers [OF recorded_run]
  have lst: "source (last recorded_thread) = name planning_agent"
    by (simp add: recorded_thread_def planning_agent_def)
  have names: "map name team_participants
      = [''PlanningAgent'', ''WebSearchAgent'', ''DataAnalystAgent'']"
    by (simp add: team_participants_def planning_agent_def web_search_agent_def
        data_analyst_agent_def)
  have sel: "selector_func recorded_thread = Inr None"
    using r [THEN conjunct2, THEN conjunct2, THEN conjunct1] lst by simp
  have nxt: "next_speakers selector_func team_participants recorded_thread
      = [''PlanningAgent'', ''WebSearchAgent'', ''DataAnalystAgent'']"
    using r [THEN conjunct2, THEN conjunct2, THEN conjunct2] lst names by simp
  show ?thesis
    using recorded_run r [THEN conjunct1] r [THEN conjunct2, THEN conjunct1] sel nxt
    by (intro conjI)
qed

text \<open>
  C8 does not hold message by message: in the conversation that the tutorial
  records for this team, which is a run of the team, the turn of DataAnalystAgent
  consists of three consecutive messages, so a message of a source other than the
  planning agent is followed by another such message.
\<close>

theorem consecutive_messages_of_other_source_counterexample:
  "group_chat_run selector_func team_participants termination_condition task
     recorded_thread recorded_speakers
   \<and> \<not> successively planning_follows (map source recorded_thread)"
proof -
  have "\<not> successively planning_follows (map source recorded_thread)"
    by code_simp
  with recorded_run show ?thesis by (rule conjI)
qed

end
